theory Spec2Isabelle
  imports Main "HOL-Library.Sublist"
begin

section \<open>Python strings\<close>

text \<open>
  A Python \<open>str\<close> is modelled as a \<open>string\<close>: a list of code points below 256. In that
  range \<open>str.isspace\<close> (used by \<open>rstrip\<close> and by \<open>\s\<close>) holds of the code points
  9 to 13, 28 to 32, 133 and 160, \<open>\d\<close> matches the ten ASCII digits only, and case
  folding pairs \<open>A\<close>..\<open>Z\<close> with \<open>a\<close>..\<open>z\<close> and the Latin-1 capitals with their small
  letters.
\<close>

definition isspace :: "char \<Rightarrow> bool" where
  "isspace c = (let n = (of_char c :: nat)
                in (9 \<le> n \<and> n \<le> 13) \<or> (28 \<le> n \<and> n \<le> 32) \<or> n = 133 \<or> n = 160)"

definition isdigit :: "char \<Rightarrow> bool" where
  "isdigit c = (let n = (of_char c :: nat) in 48 \<le> n \<and> n \<le> 57)"

definition lower :: "char \<Rightarrow> char" where
  "lower c = (let n = (of_char c :: nat)
              in if (65 \<le> n \<and> n \<le> 90) \<or> (192 \<le> n \<and> n \<le> 222 \<and> n \<noteq> 215)
                 then char_of (n + 32) else c)"

definition newline :: char where
  "newline = CHR 0x0A"

text \<open>\<open>line.rstrip()\<close>: the line without its trailing whitespace.\<close>

definition rstrip :: "string \<Rightarrow> string" where
  "rstrip s = rev (dropWhile isspace (rev s))"

section \<open>Compiled regular expressions\<close>

text \<open>
  The fragment of \<open>re\<close> that the repository's patterns use. A compiled pattern is a
  sequence of items: \<open>^\<close>, \<open>$\<close>, one character (a literal, \<open>\d\<close>, \<open>\s\<close> or \<open>.\<close>), a greedy
  repetition \<open>x{n,}\<close> of one character (\<open>x+\<close> is \<open>x{1,}\<close>), and the parentheses of a
  capture group. The flag is \<open>re.I\<close>.
\<close>

datatype atom = Lit char | Digit | Space | Dot

datatype item = Bol | Eol | One atom | AtLeast nat atom | GroupOpen | GroupClose

datatype regex = Regex (ignorecase: bool) (items: "item list")

fun atom_ok :: "bool \<Rightarrow> atom \<Rightarrow> char \<Rightarrow> bool" where
  "atom_ok ic (Lit x) c = (if ic then lower c = lower x else c = x)"
| "atom_ok ic Digit c = isdigit c"
| "atom_ok ic Space c = isspace c"
| "atom_ok ic Dot c = (c \<noteq> newline)"

fun first_some :: "'a option list \<Rightarrow> 'a option" where
  "first_some [] = None"
| "first_some (None # xs) = first_some xs"
| "first_some (Some x # xs) = Some x"

text \<open>
  \<open>run ic its s i g caps\<close> matches the items \<open>its\<close> against \<open>s\<close> from position \<open>i\<close>, as the
  backtracking matcher of \<open>re\<close> does: a repetition takes as many characters as it can and
  gives them back one at a time while the rest of the pattern fails. \<open>g\<close> is the start
  of the group that is open, \<open>caps\<close> the groups closed so far. \<open>^\<close> holds at position 0
  only, \<open>$\<close> at the end of the string and before a newline that ends the string
  (no \<open>re.M\<close>). The result is \<open>groups()\<close> of the match found.
\<close>

fun run :: "bool \<Rightarrow> item list \<Rightarrow> string \<Rightarrow> nat \<Rightarrow> nat option \<Rightarrow> string list
            \<Rightarrow> string list option" where
  "run ic [] s i g caps = Some caps"
| "run ic (Bol # r) s i g caps = (if i = 0 then run ic r s i g caps else None)"
| "run ic (Eol # r) s i g caps =
     (if i = length s \<or> (Suc i = length s \<and> s ! i = newline)
      then run ic r s i g caps else None)"
| "run ic (One a # r) s i g caps =
     (if i < length s \<and> atom_ok ic a (s ! i) then run ic r s (Suc i) g caps else None)"
| "run ic (AtLeast n a # r) s i g caps =
     (let k = length (takeWhile (atom_ok ic a) (drop i s))
      in first_some (map (\<lambda>j. run ic r s (i + j) g caps) (rev [n..<Suc k])))"
| "run ic (GroupOpen # r) s i g caps = run ic r s i (Some i) caps"
| "run ic (GroupClose # r) s i g caps =
     (case g of
        None \<Rightarrow> run ic r s i None caps
      | Some b \<Rightarrow> run ic r s i None (caps @ [take (i - b) (drop b s)]))"

text \<open>\<open>re.match\<close> tries position 0 only; \<open>re.search\<close> tries every position from the left.\<close>

definition re_match :: "regex \<Rightarrow> string \<Rightarrow> string list option" where
  "re_match rx s = run (ignorecase rx) (items rx) s 0 None []"

definition re_search :: "regex \<Rightarrow> string \<Rightarrow> string list option" where
  "re_search rx s =
     first_some (map (\<lambda>i. run (ignorecase rx) (items rx) s i None []) [0..<Suc (length s)])"

text \<open>A pattern without metacharacters: every character stands for itself.\<close>

definition literal :: "string \<Rightarrow> item list" where
  "literal s = map (\<lambda>c. One (Lit c)) s"

section \<open>utils.py\<close>

datatype error =
    FileNotFoundError string
  | JSONDecodeError
  | UnicodeDecodeError
  | AttributeError

subsection \<open>parse_file_by_block\<close>

text \<open>
  The loop of \<open>parse_file_by_block\<close> over the lines of the open file, \<open>block_found\<close>
  being its flag; the result is the list of the values the generator yields, in the
  order it yields them. \<open>break\<close> ends the loop: no later line is read.
\<close>

fun scan_lines :: "regex \<Rightarrow> regex \<Rightarrow> regex \<Rightarrow> bool \<Rightarrow> string list \<Rightarrow> string list list" where
  "scan_lines start_block end_block search_params block_found [] = []"
| "scan_lines start_block end_block search_params block_found (l # ls) =
     (let line = rstrip l in
      if block_found then
        (if re_match end_block line \<noteq> None then []
         else (case re_search search_params line of
                 Some groups \<Rightarrow>
                   groups # scan_lines start_block end_block search_params True ls
               | None \<Rightarrow> scan_lines start_block end_block search_params True ls))
      else if re_match start_block line \<noteq> None
        then scan_lines start_block end_block search_params True ls
        else scan_lines start_block end_block search_params False ls)"

text \<open>
  The file system is a map from file names to the lines of the file, each as the
  iteration over the file gives it (with its line end). \<open>open\<close> of a missing file
  raises.
\<close>

definition parse_file_by_block ::
  "(string \<rightharpoonup> string list) \<Rightarrow> string \<Rightarrow> regex \<Rightarrow> regex \<Rightarrow> regex \<Rightarrow> error + string list list" where
  "parse_file_by_block fs file_name start_block end_block search_params =
     (case fs file_name of
        None \<Rightarrow> Inl (FileNotFoundError file_name)
      | Some f \<Rightarrow> Inr (scan_lines start_block end_block search_params False f))"

subsection \<open>Python values\<close>

text \<open>
  The values that the decoded JSON documents and the attributes of the instances hold.
  A \<open>dict\<close> keeps its items in insertion order, its keys distinct strings, so an
  item of the list is a key together with \<open>dictionary[key]\<close>.
\<close>

datatype pyval =
    PNone
  | PBool bool
  | PInt int
  | PStr string
  | PList "pyval list"
  | PDict "(string \<times> pyval) list"
  | PSet "string set"
  | PRegex regex

text \<open>The truth value of an object, as \<open>not x\<close> takes it.\<close>

fun truthy :: "pyval \<Rightarrow> bool" where
  "truthy PNone = False"
| "truthy (PBool b) = b"
| "truthy (PInt i) = (i \<noteq> 0)"
| "truthy (PStr s) = (s \<noteq> [])"
| "truthy (PList xs) = (xs \<noteq> [])"
| "truthy (PDict kvs) = (kvs \<noteq> [])"
| "truthy (PSet A) = (A \<noteq> {})"
| "truthy (PRegex rx) = True"

subsection \<open>json_response_to_xml\<close>

text \<open>
  \<open>json.loads\<close> and \<open>dicttoxml.dicttoxml\<close> are library code and parameters here.
  The body of a response is a sequence of bytes; \<open>loads\<close> gives the value decoded
  from it, or the exception that \<open>json.loads\<close> raises: \<open>json.JSONDecodeError\<close> for
  a text that is no JSON document, \<open>UnicodeDecodeError\<close> for bytes that are no text.
  The function has no handler, so whatever \<open>json.loads\<close> raises is what its caller
  sees; the type \<open>'e\<close> of the exceptions of the decoder is left open.
\<close>

record response =
  url :: string
  body :: string

definition json_response_to_xml ::
  "(string \<Rightarrow> 'e + pyval) \<Rightarrow> (pyval \<Rightarrow> string) \<Rightarrow> response \<Rightarrow> 'e + response" where
  "json_response_to_xml loads dicttoxml response =
     (case loads (body response) of
        Inl e \<Rightarrow> Inl e
      | Inr dictionary \<Rightarrow> Inr (response\<lparr>body := dicttoxml dictionary\<rparr>))"

text \<open>
  A decoder for closed examples. It agrees with \<open>json.loads\<close> at the bodies used
  here: the two shortest documents, the text \<open>{\<close>, which is no JSON document, and
  the single byte \<open>0xFF\<close>, which is no text in any encoding that \<open>json.loads\<close> tries.
\<close>

definition loads_min :: "string \<Rightarrow> error + pyval" where
  "loads_min b =
     (if b = ''{}'' then Inr (PDict [])
      else if b = ''[]'' then Inr (PList [])
      else if b = [CHR 0xFF] then Inl UnicodeDecodeError
      else Inl JSONDecodeError)"

subsection \<open>parse_dict\<close>

text \<open>
  \<open>parse_dict_loop\<close> is the \<open>for\<close> loop over \<open>dictionary.keys()\<close>, with \<open>p\<close> for
  \<open>key_list[0]\<close>, \<open>ps\<close> for \<open>key_list[1:]\<close> and the accumulator \<open>search_results\<close>.
  The key patterns are taken compiled. An object without \<open>keys\<close> (anything but a
  \<open>dict\<close>) raises \<open>AttributeError\<close>, which ends the whole search.
\<close>

fun parse_dict :: "pyval \<Rightarrow> regex list \<Rightarrow> bool \<Rightarrow> error + pyval list"
  and parse_dict_loop ::
    "(string \<times> pyval) list \<Rightarrow> regex \<Rightarrow> regex list \<Rightarrow> bool \<Rightarrow> pyval list \<Rightarrow> error + pyval list" where
  "parse_dict dictionary [] get_key = Inr []"
| "parse_dict dictionary (p # ps) get_key =
     (case dictionary of
        PDict kvs \<Rightarrow> parse_dict_loop kvs p ps get_key []
      | _ \<Rightarrow> Inl AttributeError)"
| "parse_dict_loop [] p ps get_key search_results = Inr search_results"
| "parse_dict_loop ((key, v) # rest) p ps get_key search_results =
     (if re_match p key = None then parse_dict_loop rest p ps get_key search_results
      else if length (p # ps) = 1 then
        (if get_key then parse_dict_loop rest p ps get_key (search_results @ [PStr key])
         else parse_dict_loop rest p ps get_key (search_results @ [v]))
      else
        (case parse_dict v ps get_key of
           Inl e \<Rightarrow> Inl e
         | Inr found \<Rightarrow> parse_dict_loop rest p ps get_key (search_results @ found)))"

section \<open>context.py\<close>

text \<open>
  An instance is its class and its \<open>__dict__\<close>, the map from attribute names to
  values; a constructor returns the instance it has filled.
\<close>

datatype vuln_class = CVE_class | DSA_class | RHSA_class

record Vulnerability =
  class_of :: vuln_class
  attrs :: "string \<rightharpoonup> pyval"

definition Vulnerability_init ::
  "(string \<rightharpoonup> pyval) \<Rightarrow> string \<Rightarrow> pyval \<Rightarrow> pyval \<Rightarrow> (string \<rightharpoonup> pyval)" where
  "Vulnerability_init self vuln_id entrypoint_urls packages =
     self(''vuln_id'' \<mapsto> PStr vuln_id,
          ''entrypoint_urls'' \<mapsto> entrypoint_urls,
          ''packages'' \<mapsto> packages)"

definition allowed_keys :: "string set" where
  "allowed_keys = {''start_block'', ''end_block'', ''search_params'',
                   ''as_per_block'', ''xpaths'', ''key_list''}"

text \<open>
  \<open>kwargs\<close> holds the keyword arguments that name no parameter of \<open>__init__\<close>;
  \<open>__dict__.update\<close> stores those of them whose key is allowed.
\<close>

definition UnparsableVulnerability_init ::
  "(string \<rightharpoonup> pyval) \<Rightarrow> string \<Rightarrow> pyval \<Rightarrow> string \<Rightarrow> string \<Rightarrow> pyval
   \<Rightarrow> (string \<rightharpoonup> pyval) \<Rightarrow> (string \<rightharpoonup> pyval)" where
  "UnparsableVulnerability_init self vuln_id packages base_url parse_mode entrypoint_urls kwargs =
     (let self = self(''base_url'' \<mapsto> PStr base_url);
          self = self(''equivalent_vulns'' \<mapsto> PList []);
          self = self(''parse_mode'' \<mapsto> PStr parse_mode);
          self = self(''allowed_keys'' \<mapsto> PSet allowed_keys);
          entrypoint_urls = (if \<not> truthy entrypoint_urls then PList [] else entrypoint_urls);
          self = self ++ (kwargs |` allowed_keys)
      in Vulnerability_init self vuln_id entrypoint_urls packages)"

text \<open>\<open>translate\<close> and \<open>clean_data\<close> have the body \<open>pass\<close>: they return, and change nothing.\<close>

definition translate :: "Vulnerability \<Rightarrow> error + Vulnerability" where
  "translate self = Inr self"

definition clean_data :: "Vulnerability \<Rightarrow> error + Vulnerability" where
  "clean_data self = Inr self"

definition CVE :: "string \<Rightarrow> pyval \<Rightarrow> Vulnerability" where
  "CVE vuln_id packages =
     (let entrypoint_urls = PList [
            PStr (''https://nvd.nist.gov/vuln/detail/'' @ vuln_id),
            PStr (''https://cve.mitre.org/cgi-bin/cvename.cgi?name='' @ vuln_id),
            PStr (''https://security-tracker.debian.org/tracker/'' @ vuln_id)]
      in \<lparr>class_of = CVE_class,
          attrs = Vulnerability_init Map.empty vuln_id entrypoint_urls packages\<rparr>)"

text \<open>
  The patterns of \<open>DSA\<close>. The start pattern is compiled from a text that contains the
  identifier: the letters, digits, hyphens and the newline of an identifier that
  \<open>create_vuln\<close> passes on stand for themselves in a pattern, hence \<open>literal vuln_id\<close>.
  An identifier with a metacharacter, which \<open>create_vuln\<close> never passes on, would be
  interpreted by \<open>re.compile\<close>; for such an identifier this definition is not the
  pattern of the code.
\<close>

definition DSA_start_block :: "string \<Rightarrow> regex" where
  "DSA_start_block vuln_id = Regex False
     ([Bol, One (Lit CHR ''[''), AtLeast 1 Dot, One (Lit CHR '']''), One (Lit CHR '' '')]
      @ literal vuln_id)"

definition DSA_end_block :: regex where
  "DSA_end_block = Regex False [Bol, AtLeast 1 Space, One (Lit CHR ''['')]"

definition DSA_search_params :: regex where
  "DSA_search_params = Regex False
     [Bol, AtLeast 1 Space, One (Lit CHR ''{''), GroupOpen, AtLeast 1 Dot, GroupClose,
      One (Lit CHR ''}'')]"

definition DSA :: "string \<Rightarrow> pyval \<Rightarrow> Vulnerability" where
  "DSA vuln_id packages =
     (let base_url = ''https://salsa.debian.org/security-tracker-team/'' @
                     ''security-tracker/raw/master/data/DSA/list'';
          start_block = DSA_start_block vuln_id;
          end_block = DSA_end_block;
          search_params = DSA_search_params;
          as_per_block = True;
          parse_mode = ''plain''
      in \<lparr>class_of = DSA_class,
          attrs = UnparsableVulnerability_init Map.empty vuln_id packages base_url parse_mode PNone
            [''start_block'' \<mapsto> PRegex start_block,
             ''end_block'' \<mapsto> PRegex end_block,
             ''search_params'' \<mapsto> PRegex search_params,
             ''as_per_block'' \<mapsto> PBool as_per_block]\<rparr>)"

definition RHSA :: "string \<Rightarrow> pyval \<Rightarrow> Vulnerability" where
  "RHSA vuln_id packages =
     (let base_url = ''https://access.redhat.com/labs/securitydataapi/'' @
                     ''cve.json?advisory='' @ vuln_id;
          key_list = [''CVE''];
          parse_mode = ''json''
      in \<lparr>class_of = RHSA_class,
          attrs = UnparsableVulnerability_init Map.empty vuln_id packages base_url parse_mode PNone
            [''key_list'' \<mapsto> PList (map PStr key_list)]\<rparr>)"



definition cve_pattern :: regex where
  "cve_pattern = Regex True
     ([Bol] @ literal ''CVE'' @
      [One (Lit CHR ''-''), AtLeast 1 Digit, One (Lit CHR ''-''), AtLeast 1 Digit, Eol])"

definition dsa_pattern :: regex where
  "dsa_pattern = Regex True
     ([Bol] @ literal ''DSA'' @
      [One (Lit CHR ''-''), AtLeast 3 Digit, One (Lit CHR ''-''), AtLeast 1 Digit, Eol])"

definition rhsa_pattern :: regex where
  "rhsa_pattern = Regex True
     ([Bol] @ literal ''RHSA:'' @
      [AtLeast 1 Digit, One (Lit CHR ''-''), AtLeast 1 Digit, Eol])"

text \<open>\<open>create_vuln\<close> returns \<open>None\<close> when no pattern matches.\<close>

definition create_vuln :: "string \<Rightarrow> pyval \<Rightarrow> Vulnerability option" where
  "create_vuln vuln_id packages =
     (if re_match cve_pattern vuln_id \<noteq> None then Some (CVE vuln_id packages)
      else if re_match dsa_pattern vuln_id \<noteq> None then Some (DSA vuln_id packages)
      else if re_match rhsa_pattern vuln_id \<noteq> None then Some (RHSA vuln_id packages)
      else None)"

record Context =
  input_vuln :: Vulnerability
  runnable_vulns :: "Vulnerability list"

definition Context_init :: "Vulnerability \<Rightarrow> Context" where
  "Context_init vuln = \<lparr>input_vuln = vuln, runnable_vulns = []\<rparr>"

definition translate_vuln :: "Context \<Rightarrow> error + Context" where
  "translate_vuln self = Inr self"

definition run_crawlers :: "Context \<Rightarrow> error + Context" where
  "run_crawlers self = Inr self"

section \<open>Terms of the specification and closed examples\<close>

text \<open>
  The records of a block, in the words of the specification: each line of the block,
  stripped, is searched with \<open>search_params\<close>, and the groups of every line that
  matches make one record, in the order of the lines.
\<close>

definition block_records :: "regex \<Rightarrow> string list \<Rightarrow> string list list" where
  "block_records search_params ls =
     List.map_filter (\<lambda>l. re_search search_params (rstrip l)) ls"

definition tab :: char where
  "tab = CHR 0x09"

text \<open>
  A tracker list in which two entries match the start pattern of \<open>DSA-4321-1\<close>, each
  with one line of identifiers in braces and each closed by a line that starts with
  white space and a bracket.
\<close>

definition first_entry :: "string list" where
  "first_entry =
     [''[04 Jan 2021] DSA-4321-1 pkgname - security update'' @ [newline],
      tab # ''{CVE-2021-0001}'' @ [newline],
      tab # ''[buster] - pkgname 1.0-1'' @ [newline]]"

definition second_entry :: "string list" where
  "second_entry =
     [''[05 Jan 2021] DSA-4321-1 pkgname - regression update'' @ [newline],
      tab # ''{CVE-2021-0002}'' @ [newline],
      tab # ''[buster] - pkgname 1.0-2'' @ [newline]]"

definition tracker_files :: "string \<rightharpoonup> string list" where
  "tracker_files = [''list'' \<mapsto> first_entry @ second_entry]"

text \<open>
  Stands for \<open>dicttoxml.dicttoxml\<close> in the examples in which decoding fails, so that
  the conversion is never reached.
\<close>

definition no_xml :: "pyval \<Rightarrow> string" where
  "no_xml dictionary = []"

section \<open>The block extractor\<close>

lemma scan_skip:
  "\<forall>l\<in>set pre. re_match sb (rstrip l) = None \<Longrightarrow>
   scan_lines sb eb sp False (pre @ rest) = scan_lines sb eb sp False rest"
  by (induction pre) simp_all

lemma scan_open:
  "re_match sb (rstrip s) \<noteq> None \<Longrightarrow>
   scan_lines sb eb sp False (s # rest) = scan_lines sb eb sp True rest"
  by simp

lemma scan_inside:
  "\<forall>l\<in>set b. re_match eb (rstrip l) = None \<Longrightarrow>
   scan_lines sb eb sp True (b @ rest) = block_records sp b @ scan_lines sb eb sp True rest"
  by (induction b) (auto simp: block_records_def List.map_filter_simps split: option.splits)

lemma scan_close:
  "re_match eb (rstrip e) \<noteq> None \<Longrightarrow> scan_lines sb eb sp True (e # rest) = []"
  by simp

text \<open>
  Lines before the first start line are skipped, the lines of the block give their
  records, and the line that closes the block ends the scan, whatever follows it.
\<close>

lemma scan_closed_block:
  assumes "\<forall>l\<in>set pre. re_match sb (rstrip l) = None"
    and "re_match sb (rstrip s1) \<noteq> None"
    and "\<forall>l\<in>set b1. re_match eb (rstrip l) = None"
    and "re_match eb (rstrip e1) \<noteq> None"
  shows "scan_lines sb eb sp False (pre @ [s1] @ b1 @ [e1] @ rest) = block_records sp b1"
proof -
  have "scan_lines sb eb sp False (pre @ [s1] @ b1 @ [e1] @ rest)
        = scan_lines sb eb sp False (s1 # b1 @ e1 # rest)"
    using scan_skip [OF assms(1)] by simp
  also have "\<dots> = scan_lines sb eb sp True (b1 @ e1 # rest)"
    using assms(2) by (rule scan_open)
  also have "\<dots> = block_records sp b1 @ scan_lines sb eb sp True (e1 # rest)"
    using assms(3) by (rule scan_inside)
  also have "\<dots> = block_records sp b1"
    using scan_close [OF assms(4)] by simp
  finally show ?thesis .
qed

lemma scan_open_block:
  assumes "\<forall>l\<in>set pre. re_match sb (rstrip l) = None"
    and "re_match sb (rstrip s1) \<noteq> None"
    and "\<forall>l\<in>set b1. re_match eb (rstrip l) = None"
  shows "scan_lines sb eb sp False (pre @ [s1] @ b1) = block_records sp b1"
proof -
  have "scan_lines sb eb sp False (pre @ [s1] @ b1) = scan_lines sb eb sp False (s1 # b1 @ [])"
    using scan_skip [OF assms(1)] by simp
  also have "\<dots> = scan_lines sb eb sp True (b1 @ [])"
    using assms(2) by (rule scan_open)
  also have "\<dots> = block_records sp b1 @ scan_lines sb eb sp True []"
    using assms(3) by (rule scan_inside)
  finally show ?thesis by simp
qed

text \<open>
  C7. \<open>parse_file_by_block\<close> has no parameter \<open>as_per_block\<close>; what it does is what
  the specification describes for \<open>as_per_block = false\<close>. In a file with two blocks
  (lines \<open>pre\<close> without a start line, the start line \<open>s1\<close>, the lines \<open>b1\<close> of the
  first block, none of which closes it, the closing line \<open>e1\<close>, then anything and a
  second start line \<open>s2\<close> with its block) it yields the records of \<open>b1\<close> and nothing
  else; when the input ends before the first block is closed, it yields the records
  of that block up to the end of the input.
\<close>

theorem parse_file_by_block_first_block_only:
  assumes "\<forall>l\<in>set pre. re_match start_block (rstrip l) = None"
    and "re_match start_block (rstrip s1) \<noteq> None"
    and "\<forall>l\<in>set b1. re_match end_block (rstrip l) = None"
    and "re_match end_block (rstrip e1) \<noteq> None"
    and "re_match start_block (rstrip s2) \<noteq> None"
  shows "(fs file_name = Some (pre @ [s1] @ b1 @ [e1] @ mid @ [s2] @ b2 @ rest) \<longrightarrow>
           parse_file_by_block fs file_name start_block end_block search_params
           = Inr (block_records search_params b1)) \<and>
         (fs file_name = Some (pre @ [s1] @ b1) \<longrightarrow>
           parse_file_by_block fs file_name start_block end_block search_params
           = Inr (block_records search_params b1))"
  using scan_closed_block [OF assms(1-4), of search_params "mid @ [s2] @ b2 @ rest"]
    scan_open_block [OF assms(1-3), of search_params]
  by (simp add: parse_file_by_block_def)

theorem parse_file_by_block_first_block_only_witness:
  "re_match (DSA_start_block ''DSA-4321-1'') (rstrip (first_entry ! 0)) \<noteq> None \<and>
   re_match DSA_end_block (rstrip (first_entry ! 1)) = None \<and>
   re_match DSA_end_block (rstrip (first_entry ! 2)) \<noteq> None \<and>
   re_match (DSA_start_block ''DSA-4321-1'') (rstrip (second_entry ! 0)) \<noteq> None \<and>
   tracker_files ''list''
     = Some ([] @ [first_entry ! 0] @ [first_entry ! 1] @ [first_entry ! 2] @ []
             @ [second_entry ! 0] @ [second_entry ! 1] @ [second_entry ! 2]) \<and>
   parse_file_by_block tracker_files ''list''
     (DSA_start_block ''DSA-4321-1'') DSA_end_block DSA_search_params
     = Inr (block_records DSA_search_params [first_entry ! 1]) \<and>
   block_records DSA_search_params [first_entry ! 1] = [ [''CVE-2021-0001''] ] \<and>
   [''open'' \<mapsto> [first_entry ! 0, first_entry ! 1]] ''open''
     = Some ([] @ [first_entry ! 0] @ [first_entry ! 1]) \<and>
   parse_file_by_block [''open'' \<mapsto> [first_entry ! 0, first_entry ! 1]] ''open''
     (DSA_start_block ''DSA-4321-1'') DSA_end_block DSA_search_params
     = Inr (block_records DSA_search_params [first_entry ! 1])"
proof -
  have h1: "\<forall>l\<in>set []. re_match (DSA_start_block ''DSA-4321-1'') (rstrip l) = None"
    by simp
  have h2: "re_match (DSA_start_block ''DSA-4321-1'') (rstrip (first_entry ! 0)) \<noteq> None"
    by code_simp
  have h3: "\<forall>l\<in>set [first_entry ! 1]. re_match DSA_end_block (rstrip l) = None"
    by code_simp
  have h4: "re_match DSA_end_block (rstrip (first_entry ! 2)) \<noteq> None"
    by code_simp
  have h5: "re_match (DSA_start_block ''DSA-4321-1'') (rstrip (second_entry ! 0)) \<noteq> None"
    by code_simp
  have f1: "tracker_files ''list''
     = Some ([] @ [first_entry ! 0] @ [first_entry ! 1] @ [first_entry ! 2] @ []
             @ [second_entry ! 0] @ [second_entry ! 1] @ [second_entry ! 2])"
    by (simp add: tracker_files_def first_entry_def second_entry_def)
  have f2: "[''open'' \<mapsto> [first_entry ! 0, first_entry ! 1]] ''open''
     = Some ([] @ [first_entry ! 0] @ [first_entry ! 1])"
    by simp
  have r: "block_records DSA_search_params [first_entry ! 1] = [ [''CVE-2021-0001''] ]"
    by code_simp
  note t = parse_file_by_block_first_block_only [where pre = "[]"
      and ?b1.0 = "[first_entry ! 1]" and search_params = DSA_search_params
      and ?b2.0 = "[second_entry ! 1]" and rest = "[second_entry ! 2]" and mid = "[]",
      OF h1 h2 h3 h4 h5]
  from t [of tracker_files "''list''"] f1
  have a: "parse_file_by_block tracker_files ''list''
     (DSA_start_block ''DSA-4321-1'') DSA_end_block DSA_search_params
     = Inr (block_records DSA_search_params [first_entry ! 1])"
    by blast
  from t [of "[''open'' \<mapsto> [first_entry ! 0, first_entry ! 1]]" "''open''"] f2
  have b: "parse_file_by_block [''open'' \<mapsto> [first_entry ! 0, first_entry ! 1]] ''open''
     (DSA_start_block ''DSA-4321-1'') DSA_end_block DSA_search_params
     = Inr (block_records DSA_search_params [first_entry ! 1])"
    by blast
  from h3 have h3': "re_match DSA_end_block (rstrip (first_entry ! 1)) = None"
    by simp
  show ?thesis using h2 h3' h4 h5 f1 f2 r a b by blast
qed

text \<open>
  C1, as amended. \<open>DSA\<close> stores \<open>as_per_block = True\<close> on its instance, but
  \<open>parse_file_by_block\<close> takes no such argument and leaves the loop at the line that
  closes the first block: in a file with two closed blocks it yields the records of
  the first block, in the order of its lines, and none of the second. The scanner is
  not armed again.
\<close>

theorem parse_file_by_block_no_rearm:
  assumes "\<forall>l\<in>set pre. re_match start_block (rstrip l) = None"
    and "re_match start_block (rstrip s1) \<noteq> None"
    and "\<forall>l\<in>set b1. re_match end_block (rstrip l) = None"
    and "re_match end_block (rstrip e1) \<noteq> None"
    and "re_match start_block (rstrip s2) \<noteq> None"
    and "\<forall>l\<in>set b2. re_match end_block (rstrip l) = None"
    and "re_match end_block (rstrip e2) \<noteq> None"
    and "fs file_name = Some (pre @ [s1] @ b1 @ [e1] @ mid @ [s2] @ b2 @ [e2] @ post)"
  shows "parse_file_by_block fs file_name start_block end_block search_params
           = Inr (block_records search_params b1) \<and>
         parse_file_by_block fs file_name start_block end_block search_params
           = parse_file_by_block (fs(file_name \<mapsto> pre @ [s1] @ b1 @ [e1])) file_name
               start_block end_block search_params"
  using scan_closed_block [OF assms(1-4), of search_params "mid @ [s2] @ b2 @ [e2] @ post"]
    scan_closed_block [OF assms(1-4), of search_params "[]"] assms(8)
  by (simp add: parse_file_by_block_def)

theorem parse_file_by_block_no_rearm_witness:
  "re_match (DSA_start_block ''DSA-4321-1'') (rstrip (first_entry ! 0)) \<noteq> None \<and>
   re_match DSA_end_block (rstrip (first_entry ! 1)) = None \<and>
   re_match DSA_end_block (rstrip (first_entry ! 2)) \<noteq> None \<and>
   re_match (DSA_start_block ''DSA-4321-1'') (rstrip (second_entry ! 0)) \<noteq> None \<and>
   re_match DSA_end_block (rstrip (second_entry ! 1)) = None \<and>
   re_match DSA_end_block (rstrip (second_entry ! 2)) \<noteq> None \<and>
   tracker_files ''list''
     = Some ([] @ [first_entry ! 0] @ [first_entry ! 1] @ [first_entry ! 2] @ []
             @ [second_entry ! 0] @ [second_entry ! 1] @ [second_entry ! 2] @ []) \<and>
   parse_file_by_block tracker_files ''list''
     (DSA_start_block ''DSA-4321-1'') DSA_end_block DSA_search_params
     = Inr (block_records DSA_search_params [first_entry ! 1])"
proof -
  have h1: "\<forall>l\<in>set []. re_match (DSA_start_block ''DSA-4321-1'') (rstrip l) = None"
    by simp
  have h2: "re_match (DSA_start_block ''DSA-4321-1'') (rstrip (first_entry ! 0)) \<noteq> None"
    by code_simp
  have h3: "\<forall>l\<in>set [first_entry ! 1]. re_match DSA_end_block (rstrip l) = None"
    by code_simp
  have h4: "re_match DSA_end_block (rstrip (first_entry ! 2)) \<noteq> None"
    by code_simp
  have h5: "re_match (DSA_start_block ''DSA-4321-1'') (rstrip (second_entry ! 0)) \<noteq> None"
    by code_simp
  have h6: "\<forall>l\<in>set [second_entry ! 1]. re_match DSA_end_block (rstrip l) = None"
    by code_simp
  have h7: "re_match DSA_end_block (rstrip (second_entry ! 2)) \<noteq> None"
    by code_simp
  have f: "tracker_files ''list''
     = Some ([] @ [first_entry ! 0] @ [first_entry ! 1] @ [first_entry ! 2] @ []
             @ [second_entry ! 0] @ [second_entry ! 1] @ [second_entry ! 2] @ [])"
    by (simp add: tracker_files_def first_entry_def second_entry_def)
  from parse_file_by_block_no_rearm [where pre = "[]" and mid = "[]" and post = "[]"
      and ?b1.0 = "[first_entry ! 1]" and ?b2.0 = "[second_entry ! 1]"
      and search_params = DSA_search_params and fs = tracker_files
      and file_name = "''list''", OF h1 h2 h3 h4 h5 h6 h7 f]
  have "parse_file_by_block tracker_files ''list''
     (DSA_start_block ''DSA-4321-1'') DSA_end_block DSA_search_params
     = Inr (block_records DSA_search_params [first_entry ! 1])"
    by blast
  moreover from h3 have "re_match DSA_end_block (rstrip (first_entry ! 1)) = None"
    by simp
  moreover from h6 have "re_match DSA_end_block (rstrip (second_entry ! 1)) = None"
    by simp
  ultimately show ?thesis using h2 h4 h5 h7 f by blast
qed

text \<open>
  C1, as stated, fails: with the patterns of \<open>DSA-4321-1\<close>, whose instance holds
  \<open>as_per_block = True\<close>, the second entry of the list has the record
  \<open>CVE-2021-0002\<close>, and the extractor yields the record of the first entry only.
\<close>

theorem parse_file_by_block_both_blocks_counterexample:
  "block_records DSA_search_params first_entry = [ [''CVE-2021-0001''] ] \<and>
   block_records DSA_search_params second_entry = [ [''CVE-2021-0002''] ] \<and>
   parse_file_by_block tracker_files ''list''
     (DSA_start_block ''DSA-4321-1'') DSA_end_block DSA_search_params
     = Inr [ [''CVE-2021-0001''] ]"
  by code_simp

section \<open>The classifier\<close>

lemma first_char:
  "re_match (Regex True (Bol # One (Lit x) # r)) s \<noteq> None
   \<Longrightarrow> s \<noteq> [] \<and> lower (hd s) = lower x"
  by (auto simp: re_match_def hd_conv_nth split: if_splits)

lemma lower_initials:
  "lower CHR ''C'' = CHR ''c''" "lower CHR ''D'' = CHR ''d''" "lower CHR ''R'' = CHR ''r''"
  by code_simp+

lemma cve_initial: "re_match cve_pattern s \<noteq> None \<Longrightarrow> lower (hd s) = CHR ''c''"
  using first_char [of "CHR ''C''" _ s]
  by (simp add: cve_pattern_def literal_def lower_initials)

lemma dsa_initial: "re_match dsa_pattern s \<noteq> None \<Longrightarrow> lower (hd s) = CHR ''d''"
  using first_char [of "CHR ''D''" _ s]
  by (simp add: dsa_pattern_def literal_def lower_initials)


text \<open>The three patterns start with different letters, so at most one of them matches.\<close>

lemma dsa_not_cve:
  assumes "re_match dsa_pattern vuln_id \<noteq> None"
  shows "re_match cve_pattern vuln_id = None"
proof (rule ccontr)
  assume "re_match cve_pattern vuln_id \<noteq> None"
  from cve_initial [OF this] dsa_initial [OF assms] show False by simp
qed



lemma create_vuln_cve:
  "re_match cve_pattern vuln_id \<noteq> None
   \<Longrightarrow> create_vuln vuln_id packages = Some (CVE vuln_id packages)"
  by (simp add: create_vuln_def)

lemma create_vuln_dsa:
  assumes "re_match dsa_pattern vuln_id \<noteq> None"
  shows "create_vuln vuln_id packages = Some (DSA vuln_id packages)"
  using assms dsa_not_cve [OF assms] by (simp add: create_vuln_def)


lemma cve_attrs:
  "class_of (CVE vuln_id packages) = CVE_class"
  "attrs (CVE vuln_id packages) ''entrypoint_urls'' = Some (PList [
      PStr (''https://nvd.nist.gov/vuln/detail/'' @ vuln_id),
      PStr (''https://cve.mitre.org/cgi-bin/cvename.cgi?name='' @ vuln_id),
      PStr (''https://security-tracker.debian.org/tracker/'' @ vuln_id)])"
  by (simp_all add: CVE_def Vulnerability_init_def)

lemma unparsable_attrs:
  "UnparsableVulnerability_init self vuln_id packages base_url parse_mode eu kwargs ''base_url''
     = Some (PStr base_url)"
  "UnparsableVulnerability_init self vuln_id packages base_url parse_mode eu kwargs ''parse_mode''
     = Some (PStr parse_mode)"
  "UnparsableVulnerability_init self vuln_id packages base_url parse_mode eu kwargs
     ''equivalent_vulns'' = Some (PList [])"
  "UnparsableVulnerability_init self vuln_id packages base_url parse_mode eu kwargs ''vuln_id''
     = Some (PStr vuln_id)"
  "UnparsableVulnerability_init self vuln_id packages base_url parse_mode eu kwargs ''packages''
     = Some packages"
  "UnparsableVulnerability_init self vuln_id packages base_url parse_mode eu kwargs
     ''allowed_keys'' = Some (PSet allowed_keys)"
  "UnparsableVulnerability_init self vuln_id packages base_url parse_mode eu kwargs
     ''entrypoint_urls'' = Some (if truthy eu then eu else PList [])"
  by (simp_all add: UnparsableVulnerability_init_def Vulnerability_init_def Let_def
      map_add_def restrict_map_def allowed_keys_def)

lemma dsa_attrs:
  "class_of (DSA vuln_id packages) = DSA_class"
  "attrs (DSA vuln_id packages) ''base_url'' = Some (PStr
     ''https://salsa.debian.org/security-tracker-team/security-tracker/raw/master/data/DSA/list'')"
  "attrs (DSA vuln_id packages) ''parse_mode'' = Some (PStr ''plain'')"
  "attrs (DSA vuln_id packages) ''equivalent_vulns'' = Some (PList [])"
  by (simp_all add: DSA_def Let_def unparsable_attrs)

lemma rhsa_attrs:
  "class_of (RHSA vuln_id packages) = RHSA_class"
  "attrs (RHSA vuln_id packages) ''base_url'' = Some (PStr
     (''https://access.redhat.com/labs/securitydataapi/cve.json?advisory='' @ vuln_id))"
  "attrs (RHSA vuln_id packages) ''parse_mode'' = Some (PStr ''json'')"
  "attrs (RHSA vuln_id packages) ''equivalent_vulns'' = Some (PList [])"
  by (simp_all add: RHSA_def Let_def unparsable_attrs)



text \<open>
  C3. For an identifier that matches the pattern of CVE, \<open>create_vuln\<close> returns a
  \<open>CVE\<close> whose entry points are three addresses, at NVD, MITRE and the Debian security
  tracker in this order, and the identifier as it was given is part of each.
\<close>

theorem create_vuln_cve_entrypoints:
  assumes "re_match cve_pattern vuln_id \<noteq> None"
  shows "\<exists>v nvd mitre debian.
           create_vuln vuln_id packages = Some v \<and> class_of v = CVE_class \<and>
           attrs v ''entrypoint_urls'' = Some (PList [PStr nvd, PStr mitre, PStr debian]) \<and>
           nvd = ''https://nvd.nist.gov/vuln/detail/'' @ vuln_id \<and>
           mitre = ''https://cve.mitre.org/cgi-bin/cvename.cgi?name='' @ vuln_id \<and>
           debian = ''https://security-tracker.debian.org/tracker/'' @ vuln_id \<and>
           sublist vuln_id nvd \<and> sublist vuln_id mitre \<and> sublist vuln_id debian"
  using create_vuln_cve [OF assms, of packages] by (simp add: cve_attrs sublist_Cons_right)

theorem create_vuln_cve_entrypoints_witness:
  "re_match cve_pattern ''CVE-2020-1234'' \<noteq> None \<and>
   (\<exists>v. create_vuln ''CVE-2020-1234'' PNone = Some v \<and> class_of v = CVE_class \<and>
      attrs v ''entrypoint_urls'' = Some (PList [
        PStr ''https://nvd.nist.gov/vuln/detail/CVE-2020-1234'',
        PStr ''https://cve.mitre.org/cgi-bin/cvename.cgi?name=CVE-2020-1234'',
        PStr ''https://security-tracker.debian.org/tracker/CVE-2020-1234'']))"
proof -
  have c: "re_match cve_pattern ''CVE-2020-1234'' \<noteq> None"
    by code_simp
  from create_vuln_cve_entrypoints [OF c, of PNone] c show ?thesis
    by auto
qed

text \<open>
  C4. For an identifier that none of the three patterns matches, \<open>create_vuln\<close>
  returns \<open>None\<close>, the value with which it says that the identifier is not
  recognised; it raises nothing.
\<close>

theorem create_vuln_unrecognized:
  assumes "re_match cve_pattern vuln_id = None"
    and "re_match dsa_pattern vuln_id = None"
    and "re_match rhsa_pattern vuln_id = None"
  shows "create_vuln vuln_id packages = None"
  using assms by (simp add: create_vuln_def)

theorem create_vuln_unrecognized_witness:
  "re_match cve_pattern ''GHSA-2020-1234'' = None \<and>
   re_match dsa_pattern ''GHSA-2020-1234'' = None \<and>
   re_match rhsa_pattern ''GHSA-2020-1234'' = None \<and>
   create_vuln ''GHSA-2020-1234'' PNone = None"
proof -
  have c: "re_match cve_pattern ''GHSA-2020-1234'' = None"
    by code_simp
  have d: "re_match dsa_pattern ''GHSA-2020-1234'' = None"
    by code_simp
  have r: "re_match rhsa_pattern ''GHSA-2020-1234'' = None"
    by code_simp
  from create_vuln_unrecognized [OF c d r, of PNone] c d r show ?thesis
    by simp
qed

section \<open>The configuration of an unparsable vulnerability\<close>

lemma fixed_not_allowed:
  "''vuln_id'' \<notin> allowed_keys" "''entrypoint_urls'' \<notin> allowed_keys"
  "''packages'' \<notin> allowed_keys" "''base_url'' \<notin> allowed_keys"
  "''equivalent_vulns'' \<notin> allowed_keys" "''parse_mode'' \<notin> allowed_keys"
  "''allowed_keys'' \<notin> allowed_keys"
  by (simp_all add: allowed_keys_def)

lemma upd_map_add_allowed:
  "k \<notin> allowed_keys \<Longrightarrow>
   (m ++ (kwargs |` allowed_keys))(k \<mapsto> v) = m(k \<mapsto> v) ++ (kwargs |` allowed_keys)"
  by (simp add: map_add_upd_left)

text \<open>
  The instance built with keyword arguments is the instance built without any, with
  the allowed ones among the keyword arguments added.
\<close>

lemma unparsable_init_split:
  "UnparsableVulnerability_init self vuln_id packages base_url parse_mode entrypoint_urls kwargs
   = UnparsableVulnerability_init self vuln_id packages base_url parse_mode entrypoint_urls
       Map.empty ++ (kwargs |` allowed_keys)"
  by (simp add: UnparsableVulnerability_init_def Vulnerability_init_def Let_def
      upd_map_add_allowed fixed_not_allowed)

text \<open>
  C9. \<open>UnparsableVulnerability.__init__\<close>, for any keyword arguments \<open>kwargs\<close>: an
  argument whose key is one of \<open>start_block\<close>, \<open>end_block\<close>, \<open>search_params\<close>,
  \<open>as_per_block\<close>, \<open>xpaths\<close>, \<open>key_list\<close> becomes the attribute of that name; an
  argument with any other key is dropped, the attribute of that name being what the
  constructor gives without keyword arguments (so none for a key that is no field);
  and the fields that the constructor sets have the values of its parameters. The
  constructor always returns.
\<close>

theorem unparsable_init_allowed_keys:
  "(k \<in> allowed_keys \<longrightarrow> kwargs k = Some x \<longrightarrow>
      UnparsableVulnerability_init self vuln_id packages base_url parse_mode entrypoint_urls
        kwargs k = Some x) \<and>
   (k \<notin> allowed_keys \<longrightarrow>
      UnparsableVulnerability_init self vuln_id packages base_url parse_mode entrypoint_urls
        kwargs k
      = UnparsableVulnerability_init self vuln_id packages base_url parse_mode entrypoint_urls
          Map.empty k) \<and>
   UnparsableVulnerability_init self vuln_id packages base_url parse_mode entrypoint_urls kwargs
     = UnparsableVulnerability_init self vuln_id packages base_url parse_mode entrypoint_urls
         (kwargs |` allowed_keys) \<and>
   allowed_keys = {''start_block'', ''end_block'', ''search_params'', ''as_per_block'',
                   ''xpaths'', ''key_list''} \<and>
   UnparsableVulnerability_init self vuln_id packages base_url parse_mode entrypoint_urls
     kwargs ''vuln_id'' = Some (PStr vuln_id) \<and>
   UnparsableVulnerability_init self vuln_id packages base_url parse_mode entrypoint_urls
     kwargs ''packages'' = Some packages \<and>
   UnparsableVulnerability_init self vuln_id packages base_url parse_mode entrypoint_urls
     kwargs ''base_url'' = Some (PStr base_url) \<and>
   UnparsableVulnerability_init self vuln_id packages base_url parse_mode entrypoint_urls
     kwargs ''parse_mode'' = Some (PStr parse_mode) \<and>
   UnparsableVulnerability_init self vuln_id packages base_url parse_mode entrypoint_urls
     kwargs ''equivalent_vulns'' = Some (PList []) \<and>
   UnparsableVulnerability_init self vuln_id packages base_url parse_mode entrypoint_urls
     kwargs ''entrypoint_urls''
     = Some (if truthy entrypoint_urls then entrypoint_urls else PList [])"
proof -
  let ?init = "UnparsableVulnerability_init self vuln_id packages base_url parse_mode
                 entrypoint_urls"
  have split: "?init kwargs = ?init Map.empty ++ (kwargs |` allowed_keys)"
    by (rule unparsable_init_split)
  have a: "k \<in> allowed_keys \<longrightarrow> kwargs k = Some x \<longrightarrow> ?init kwargs k = Some x"
    by (simp add: split map_add_def restrict_map_def)
  have b: "k \<notin> allowed_keys \<longrightarrow> ?init kwargs k = ?init Map.empty k"
    by (simp add: split map_add_def restrict_map_def)
  have "?init (kwargs |` allowed_keys)
        = ?init Map.empty ++ ((kwargs |` allowed_keys) |` allowed_keys)"
    by (rule unparsable_init_split)
  then have c: "?init kwargs = ?init (kwargs |` allowed_keys)"
    using split by simp
  show ?thesis
    using a b c by (simp add: unparsable_attrs allowed_keys_def)
qed

text \<open>
  One keyword argument that is allowed and two that are not: \<open>as_per_block\<close> arrives
  on the instance, \<open>verbose\<close> does not.
\<close>

theorem unparsable_init_allowed_keys_witness:
  "''as_per_block'' \<in> allowed_keys \<and>
   [''as_per_block'' \<mapsto> PBool True, ''verbose'' \<mapsto> PBool True, ''timeout'' \<mapsto> PInt 30]
     ''as_per_block'' = Some (PBool True) \<and>
   UnparsableVulnerability_init Map.empty ''DSA-4321-1'' PNone ''https://example.org/list''
     ''plain'' PNone
     [''as_per_block'' \<mapsto> PBool True, ''verbose'' \<mapsto> PBool True, ''timeout'' \<mapsto> PInt 30]
     ''as_per_block'' = Some (PBool True) \<and>
   ''verbose'' \<notin> allowed_keys \<and>
   UnparsableVulnerability_init Map.empty ''DSA-4321-1'' PNone ''https://example.org/list''
     ''plain'' PNone
     [''as_per_block'' \<mapsto> PBool True, ''verbose'' \<mapsto> PBool True, ''timeout'' \<mapsto> PInt 30]
     ''verbose'' = None"
proof -
  let ?kw = "[''as_per_block'' \<mapsto> PBool True, ''verbose'' \<mapsto> PBool True,
              ''timeout'' \<mapsto> PInt 30]"
  let ?init = "UnparsableVulnerability_init Map.empty ''DSA-4321-1'' PNone
                 ''https://example.org/list'' ''plain'' PNone"
  have a: "''as_per_block'' \<in> allowed_keys"
    by (simp add: allowed_keys_def)
  have v: "''verbose'' \<notin> allowed_keys"
    by (simp add: allowed_keys_def)
  have k: "?kw ''as_per_block'' = Some (PBool True)"
    by simp
  have e: "?init Map.empty ''verbose'' = None"
    by (simp add: UnparsableVulnerability_init_def Vulnerability_init_def Let_def)
  note t1 = unparsable_init_allowed_keys [of "''as_per_block''" ?kw "PBool True" Map.empty
      "''DSA-4321-1''" PNone "''https://example.org/list''" "''plain''" PNone]
  note t2 = unparsable_init_allowed_keys [of "''verbose''" ?kw "PBool True" Map.empty
      "''DSA-4321-1''" PNone "''https://example.org/list''" "''plain''" PNone]
  from t1 [THEN conjunct1] a k have r1: "?init ?kw ''as_per_block'' = Some (PBool True)"
    by blast
  from t2 [THEN conjunct2, THEN conjunct1] v
  have "?init ?kw ''verbose'' = ?init Map.empty ''verbose''"
    by blast
  then have r2: "?init ?kw ''verbose'' = None"
    using e by (rule trans)
  show ?thesis
    using a v k r1 r2 by blast
qed

section \<open>Translation\<close>

text \<open>
  C5, as amended. \<open>translate\<close> and \<open>translate_vuln\<close> do nothing, and there is no
  \<open>TranslationError\<close>: for every instance and every context they return without an
  error and leave it as it was. For an instance that \<open>DSA\<close> or \<open>RHSA\<close> has built, the
  list \<open>equivalent_vulns\<close> is empty after \<open>translate\<close> as it was before, and the list
  \<open>runnable_vulns\<close> of a new context is empty after \<open>translate_vuln\<close>.
\<close>

theorem translate_does_nothing:
  "translate v = Inr v \<and>
   translate_vuln c = Inr c \<and>
   translate (DSA vuln_id packages) = Inr (DSA vuln_id packages) \<and>
   attrs (DSA vuln_id packages) ''equivalent_vulns'' = Some (PList []) \<and>
   translate (RHSA vuln_id packages) = Inr (RHSA vuln_id packages) \<and>
   attrs (RHSA vuln_id packages) ''equivalent_vulns'' = Some (PList []) \<and>
   translate_vuln (Context_init v) = Inr (Context_init v) \<and>
   runnable_vulns (Context_init v) = []"
  by (simp add: translate_def translate_vuln_def Context_init_def dsa_attrs rhsa_attrs)

text \<open>
  C5, as stated, fails: \<open>DSA-4321-1\<close> is classified as a \<open>DSA\<close>, whose translation
  extracts no record; \<open>translate\<close> returns all the same, without an error, and the
  list of equivalents of the instance it returns is empty.
\<close>

theorem translate_empty_counterexample:
  "create_vuln ''DSA-4321-1'' PNone = Some (DSA ''DSA-4321-1'' PNone) \<and>
   translate (DSA ''DSA-4321-1'' PNone) = Inr (DSA ''DSA-4321-1'' PNone) \<and>
   attrs (DSA ''DSA-4321-1'' PNone) ''equivalent_vulns'' = Some (PList [])"
proof -
  have "re_match dsa_pattern ''DSA-4321-1'' \<noteq> None"
    by code_simp
  then have "create_vuln ''DSA-4321-1'' PNone = Some (DSA ''DSA-4321-1'' PNone)"
    by (rule create_vuln_dsa)
  then show ?thesis
    by (simp add: translate_def dsa_attrs)
qed

section \<open>Malformed JSON\<close>

text \<open>
  C6, as amended. When \<open>json.loads\<close> raises on the body of the response
  (\<open>json.JSONDecodeError\<close> for a text that is no JSON document,
  \<open>UnicodeDecodeError\<close> for bytes that are no text), \<open>json_response_to_xml\<close> fails
  with that same exception, unchanged: the error is the one of the decoder, which
  sees the body only, so it is the same for every address of the response and
  carries none. There is no \<open>MalformedSourceError\<close>. No response is returned, so
  no partial result.
\<close>

theorem json_response_to_xml_malformed:
  assumes "loads (body response) = Inl e"
  shows "json_response_to_xml loads dicttoxml response = Inl e \<and>
         json_response_to_xml loads dicttoxml (response\<lparr>url := u\<rparr>) = Inl e"
  using assms by (simp add: json_response_to_xml_def)

theorem json_response_to_xml_malformed_witness:
  "loads_min (body \<lparr>url = ''https://access.redhat.com/labs/securitydataapi/cve.json'',
                    body = ''{''\<rparr>) = Inl JSONDecodeError \<and>
   json_response_to_xml loads_min no_xml
     \<lparr>url = ''https://access.redhat.com/labs/securitydataapi/cve.json'', body = ''{''\<rparr>
   = Inl JSONDecodeError \<and>
   loads_min (body \<lparr>url = ''https://access.redhat.com/labs/securitydataapi/cve.json'',
                    body = [CHR 0xFF]\<rparr>) = Inl UnicodeDecodeError \<and>
   json_response_to_xml loads_min no_xml
     \<lparr>url = ''https://access.redhat.com/labs/securitydataapi/cve.json'', body = [CHR 0xFF]\<rparr>
   = Inl UnicodeDecodeError"
proof -
  let ?r1 = "\<lparr>url = ''https://access.redhat.com/labs/securitydataapi/cve.json'',
              body = ''{''\<rparr>"
  let ?r2 = "\<lparr>url = ''https://access.redhat.com/labs/securitydataapi/cve.json'',
              body = [CHR 0xFF]\<rparr>"
  have h1: "loads_min (body ?r1) = Inl JSONDecodeError"
    by (simp add: loads_min_def)
  have h2: "loads_min (body ?r2) = Inl UnicodeDecodeError"
    by (simp add: loads_min_def)
  note t1 = json_response_to_xml_malformed [where loads = loads_min and dicttoxml = no_xml
      and response = ?r1 and e = JSONDecodeError, OF h1, THEN conjunct1]
  note t2 = json_response_to_xml_malformed [where loads = loads_min and dicttoxml = no_xml
      and response = ?r2 and e = UnicodeDecodeError, OF h2, THEN conjunct1]
  show ?thesis
    using h1 h2 t1 t2 by blast
qed

text \<open>
  C6, as stated, fails: for the response of the address of \<open>RHSA:2020-1234\<close> with the
  body \<open>{\<close>, the result is the error \<open>JSONDecodeError\<close> of the decoder, the generic
  exception of the parser, and the address of the response is not in it; with the
  byte \<open>0xFF\<close> for a body it is \<open>UnicodeDecodeError\<close>.
\<close>

theorem json_response_to_xml_error_counterexample:
  "attrs (RHSA ''RHSA:2020-1234'' PNone) ''base_url'' = Some (PStr
     ''https://access.redhat.com/labs/securitydataapi/cve.json?advisory=RHSA:2020-1234'') \<and>
   attrs (RHSA ''RHSA:2020-1234'' PNone) ''parse_mode'' = Some (PStr ''json'') \<and>
   json_response_to_xml loads_min no_xml
     \<lparr>url = ''https://access.redhat.com/labs/securitydataapi/cve.json?advisory=RHSA:2020-1234'',
      body = ''{''\<rparr>
   = Inl JSONDecodeError \<and>
   json_response_to_xml loads_min no_xml
     \<lparr>url = ''https://access.redhat.com/labs/securitydataapi/cve.json?advisory=RHSA:2020-1234'',
      body = [CHR 0xFF]\<rparr>
   = Inl UnicodeDecodeError"
  by (simp add: rhsa_attrs json_response_to_xml_def loads_min_def)

section \<open>The dictionary search\<close>








text \<open>
  C8. \<open>parse_dict\<close> with an empty \<open>key_list\<close> returns the empty list, whatever the
  dictionary (any object at all) and whether keys or values are asked for: it returns
  before it looks at the dictionary, and raises nothing.
\<close>

theorem parse_dict_empty_key_list:
  "parse_dict dictionary [] get_key = Inr []"
  by simp



end
